theory Spec2Isabelle
  imports Complex_Main "HOL-Library.Word"
begin

section \<open>Data model of the process harness\<close>

text \<open>
  Candidates are byte strings. File names are strings, and the file system is a map from
  file names to file contents: the model identifies a file with the name it is opened
  under, and the directories the harness writes into exist (\<open>main\<close> creates them before
  it does anything else), so opening a file for writing succeeds. What a process still
  running does to the files after \<open>communicate\<close> has given up on it is not modelled.
\<close>

type_synonym bytes = "8 word list"
type_synonym path = string
type_synonym filesystem = "path \<rightharpoonup> bytes"

text \<open>
  A behaviour signature is a set of labels. The source returns the empty tuple for the
  discard signature and a \<open>set\<close> otherwise; both are sets of labels here, the discard
  signature being the empty one.
\<close>

type_synonym signature = "string set"

text \<open>
  The command line of \<open>main\<close>: three arguments and four options. The argument
  \<open>output\<close> is the field \<open>output'\<close>, since the plain name is taken by Isabelle.
\<close>

record config =
  command :: string
  input :: path
  output' :: path
  corpus :: path
  timeout :: real
  debug :: bool
  hash_size :: int

text \<open>
  What lies outside the program and is fixed for a run: the hex digest that
  \<open>hashlib.sha1(s).hexdigest()\<close> returns, and the real group id \<open>os.getgid()\<close> of the
  engine process.
\<close>

record env =
  sha1_hexdigest :: "bytes \<Rightarrow> string"
  os_getgid :: nat

datatype stream = Stdout | DEVNULL

datatype signal = SIGINT | SIGKILL

datatype pipe = Pipe nat

text \<open>
  The \<open>Popen\<close> object, as far as the harness reads it: the pid, the return code
  (\<open>None\<close> while the process has not been reaped) and the three stdio pipes (\<open>None\<close>
  when the stream is not a pipe).
\<close>

record popen =
  sp_pid :: nat
  returncode :: "int option"
  sp_stdout :: "pipe option"
  sp_stderr :: "pipe option"
  sp_stdin :: "pipe option"

text \<open>
  What one launched target process does, as the harness can observe it:
  \<^item> \<open>pid\<close>: the process id of the child;
  \<^item> \<open>exit_after\<close>: the seconds after which the process exits by itself, \<open>None\<close> when
    it never does;
  \<^item> \<open>exit_status\<close>: the return code \<open>communicate\<close> stores when the process has exited
    (negative when a signal killed it);
  \<^item> \<open>files_after\<close>: the file system the process leaves behind;
  \<^item> \<open>pgid\<close>: the answer of the first \<open>os.getpgid(sp.pid)\<close> of the cleanup, made
    before the interrupt, \<open>None\<close> when it raises \<open>ProcessLookupError\<close>; a child started
    with \<open>os.setsid\<close> leads its own group, so the answer is \<open>Some pid\<close> as long as the
    kernel knows the child;
  \<^item> \<open>poll\<close>: the state of the child after \<open>i\<close> sleeps of the cleanup, as \<open>sp.poll()\<close>
    reports it: \<open>None\<close> while it runs, its return code once it has exited. The cleanup
    polls after 0, 1, ..., 9 sleeps; the state after 10 sleeps is the state at the end
    of the grace period, when the kill signal is due;
  \<^item> \<open>forgotten\<close>: the kernel no longer knows the child at the second
    \<open>os.getpgid(sp.pid)\<close> of the cleanup, made before the kill, which then raises
    \<open>ProcessLookupError\<close>; when the kernel still knows the child, the answer is that of
    the first lookup, since the group of a session leader does not change;
  \<^item> \<open>missed\<close>: \<open>os.killpg\<close> with this signal finds no process in the group and raises
    \<open>ProcessLookupError\<close>.
\<close>

record run =
  pid :: nat
  exit_after :: "real option"
  exit_status :: int
  files_after :: filesystem
  pgid :: "nat option"
  poll :: "nat \<Rightarrow> int option"
  forgotten :: bool
  missed :: "signal \<Rightarrow> bool"

text \<open>
  The target program: the behaviour of the \<open>n\<close>-th process the harness launches, given
  the file system it is launched on.
\<close>

type_synonym target = "nat \<Rightarrow> filesystem \<Rightarrow> run"

text \<open>
  What the harness does to the outside world, in the order in which it does it. \<open>Sleep\<close>
  carries the milliseconds slept, \<open>Poll\<close> the value \<open>sp.poll()\<close> returned.
\<close>

datatype event =
    Unlink path
  | Write path bytes
  | Launch string stream
  | ClosePipe pipe
  | Killpg nat signal
  | Poll "int option"
  | Sleep nat
  | Copy path path
  | Echo string

text \<open>
  The variables of \<open>main\<close> that \<open>classify\<close> updates (\<open>first_call\<close>,
  \<open>consecutive_timeouts\<close>), the file system, the number of processes launched so far
  and the events so far, oldest first.
\<close>

record harness =
  first_call :: bool
  consecutive_timeouts :: int
  fs :: filesystem
  launches :: nat
  log :: "event list"

datatype exn = SystemExit int | AssertionError | ProcessLookupError

text \<open>A call returns a value, raises, or never returns.\<close>

datatype 'a result = Returns 'a | Raises exn | Blocks

section \<open>Library functions\<close>

text \<open>\<open>posixpath.join\<close> with two arguments, and \<open>posixpath.basename\<close>.\<close>

definition os_path_join :: "path \<Rightarrow> path \<Rightarrow> path" where
  "os_path_join a b =
     (if b \<noteq> [] \<and> hd b = CHR ''/'' then b
      else if a = [] \<or> last a = CHR ''/'' then a @ b
      else a @ ''/'' @ b)"

definition os_path_basename :: "path \<Rightarrow> path" where
  "os_path_basename p = rev (takeWhile (\<lambda>c. c \<noteq> CHR ''/'') (rev p))"

text \<open>The slice \<open>s[:n]\<close>: a negative \<open>n\<close> counts from the end.\<close>

definition slice_to :: "int \<Rightarrow> 'a list \<Rightarrow> 'a list" where
  "slice_to n s = (if 0 \<le> n then take (nat n) s else take (nat (int (length s) + n)) s)"

text \<open>\<open>"%d" % i\<close>: the decimal digits, with a minus sign for a negative number.\<close>

definition digit :: "nat \<Rightarrow> char" where
  "digit d = ''0123456789'' ! d"

fun digits :: "nat \<Rightarrow> string" where
  "digits n = (if n < 10 then [digit n] else digits (n div 10) @ [digit (n mod 10)])"

declare digits.simps [simp del]

definition format_d :: "int \<Rightarrow> string" where
  "format_d i = (if i < 0 then CHR ''-'' # digits (nat (- i)) else digits (nat i))"

text \<open>\<open>"%s" % x\<close> for \<open>x\<close> a string or \<open>None\<close>.\<close>

definition format_s :: "string option \<Rightarrow> string" where
  "format_s x = (case x of None \<Rightarrow> ''None'' | Some s \<Rightarrow> s)"

section \<open>The closures of main\<close>

definition crashes :: "config \<Rightarrow> path" where
  "crashes cfg = os_path_join (corpus cfg) ''crashes''"

definition unstable :: "config \<Rightarrow> path" where
  "unstable cfg = os_path_join (corpus cfg) ''unstable''"

definition timeouts :: "config \<Rightarrow> path" where
  "timeouts cfg = os_path_join (corpus cfg) ''timeouts''"


definition exemplars :: "config \<Rightarrow> path" where
  "exemplars cfg = os_path_join (corpus cfg) ''exemplars''"

definition gallery :: "config \<Rightarrow> path" where
  "gallery cfg = os_path_join (corpus cfg) ''gallery''"

definition name_for :: "config \<Rightarrow> string \<Rightarrow> string" where
  "name_for cfg n = n @ ''-'' @ input cfg"

definition hashed_name :: "config \<Rightarrow> env \<Rightarrow> bytes \<Rightarrow> string" where
  "hashed_name cfg e s = name_for cfg (slice_to 8 (sha1_hexdigest e s))"

definition emit :: "event \<Rightarrow> harness \<Rightarrow> harness" where
  "emit ev st = st\<lparr>log := log st @ [ev]\<rparr>"

definition write_file :: "path \<Rightarrow> bytes \<Rightarrow> harness \<Rightarrow> harness" where
  "write_file p s st = emit (Write p s) (st\<lparr>fs := (fs st)(p \<mapsto> s)\<rparr>)"

text \<open>\<open>os.unlink\<close> inside \<open>try ... except FileNotFoundError: pass\<close>.\<close>

definition unlink_quiet :: "path \<Rightarrow> harness \<Rightarrow> harness" where
  "unlink_quiet p st = emit (Unlink p) (st\<lparr>fs := (fs st)(p := None)\<rparr>)"

definition record_in :: "config \<Rightarrow> env \<Rightarrow> path \<Rightarrow> bytes \<Rightarrow> harness \<Rightarrow> harness" where
  "record_in cfg e f s st = write_file (os_path_join f (hashed_name cfg e s)) s st"

section \<open>Signalling and cleanup\<close>

text \<open>
  The cleanup calls \<open>signal_group\<close> at most twice, first with the interrupt and then
  with the kill, so the signal tells the two calls apart. \<open>os.getpgid(sp.pid)\<close> in the
  call with the signal given: the kernel may have forgotten the child by the second call.
\<close>

definition os_getpgid :: "run \<Rightarrow> signal \<Rightarrow> exn + nat" where
  "os_getpgid r sig =
     (if sig = SIGKILL \<and> forgotten r then Inl ProcessLookupError
      else case pgid r of None \<Rightarrow> Inl ProcessLookupError | Some gid \<Rightarrow> Inr gid)"

text \<open>\<open>os.killpg(gid, signal)\<close>: the signal is sent, or no process is found in the group.\<close>

definition os_killpg :: "run \<Rightarrow> nat \<Rightarrow> signal \<Rightarrow> exn + event list" where
  "os_killpg r gid sig = (if missed r sig then Inl ProcessLookupError else Inr [Killpg gid sig])"

text \<open>
  \<open>signal_group\<close>: look the group of the child up, assert that it differs from
  \<open>os.getgid()\<close>, signal the group. The result is the exception raised or the events done.
\<close>

definition signal_group :: "env \<Rightarrow> run \<Rightarrow> popen \<Rightarrow> signal \<Rightarrow> exn + event list" where
  "signal_group e r sp sig =
     (case os_getpgid r sig of
        Inl x \<Rightarrow> Inl x
      | Inr gid \<Rightarrow> if gid \<noteq> os_getgid e then os_killpg r gid sig else Inl AssertionError)"

text \<open>
  The loop \<open>for _ in range(10)\<close> of \<open>interrupt_wait_and_kill\<close>, from iteration \<open>i\<close> with
  \<open>n\<close> iterations left: whether it returned from the function, and the events done.
\<close>

fun poll_loop :: "run \<Rightarrow> nat \<Rightarrow> nat \<Rightarrow> bool \<times> event list" where
  "poll_loop r i 0 = (False, [])"
| "poll_loop r i (Suc n) =
     (case poll r i of
        Some rc \<Rightarrow> (True, [Poll (Some rc)])
      | None \<Rightarrow> (case poll_loop r (Suc i) n of (done, evs) \<Rightarrow> (done, Poll None # Sleep 100 # evs)))"

definition close_pipes :: "popen \<Rightarrow> event list" where
  "close_pipes sp =
     concat (map (\<lambda>p. case p of None \<Rightarrow> [] | Some q \<Rightarrow> [ClosePipe q])
       [sp_stdout sp, sp_stderr sp, sp_stdin sp])"

text \<open>
  \<open>interrupt_wait_and_kill\<close>: the exception that escapes, if any, and the events done.
  \<open>ProcessLookupError\<close> is caught and ends the function; \<open>AssertionError\<close> escapes.
\<close>

definition interrupt_wait_and_kill :: "env \<Rightarrow> run \<Rightarrow> popen \<Rightarrow> exn option \<times> event list" where
  "interrupt_wait_and_kill e r sp =
     (if returncode sp = None then
        (case signal_group e r sp SIGINT of
           Inl ProcessLookupError \<Rightarrow> (None, close_pipes sp)
         | Inl x \<Rightarrow> (Some x, close_pipes sp)
         | Inr sent \<Rightarrow>
             (case poll_loop r 0 10 of
                (True, polled) \<Rightarrow> (None, close_pipes sp @ sent @ polled)
              | (False, polled) \<Rightarrow>
                  (case signal_group e r sp SIGKILL of
                     Inl ProcessLookupError \<Rightarrow> (None, close_pipes sp @ sent @ polled)
                   | Inl x \<Rightarrow> (Some x, close_pipes sp @ sent @ polled)
                   | Inr killed \<Rightarrow> (None, close_pipes sp @ sent @ polled @ killed))))
      else (None, []))"

section \<open>classify\<close>

text \<open>The stdio of the child: \<open>sys.stdout\<close> on the first call, \<open>DEVNULL\<close> afterwards.\<close>

definition choose_target :: "harness \<Rightarrow> stream \<times> harness" where
  "choose_target st =
     (if first_call st then (Stdout, st\<lparr>first_call := False\<rparr>) else (DEVNULL, st))"

text \<open>
  \<open>subprocess.Popen\<close>: the child is the next process of the target, started on the
  current file system. None of its streams is a pipe, so the three attributes are \<open>None\<close>.
\<close>

definition launch :: "config \<Rightarrow> target \<Rightarrow> stream \<Rightarrow> harness \<Rightarrow> run \<times> popen \<times> harness" where
  "launch cfg tgt out st =
     (let r = tgt (launches st) (fs st)
      in (r,
          \<lparr>sp_pid = pid r, returncode = None,
           sp_stdout = None, sp_stderr = None, sp_stdin = None\<rparr>,
          emit (Launch (command cfg) out) (st\<lparr>launches := Suc (launches st)\<rparr>)))"

text \<open>
  \<open>sp.communicate\<close>, with the timeout when it is positive and without one otherwise:
  the process has exited with a return code, the timeout has expired, or the call never
  returns (no timeout and a process that never exits).
\<close>

datatype waited = Exited int | Expired | Never

definition communicate :: "config \<Rightarrow> run \<Rightarrow> waited" where
  "communicate cfg r =
     (if timeout cfg > 0 then
        (case exit_after r of
           None \<Rightarrow> Expired
         | Some d \<Rightarrow> if d \<le> timeout cfg then Exited (exit_status r) else Expired)
      else
        (case exit_after r of
           None \<Rightarrow> Never
         | Some d \<Rightarrow> Exited (exit_status r)))"

text \<open>
  The \<open>finally\<close> clause: \<open>interrupt_wait_and_kill\<close> runs after the body of the \<open>try\<close>
  and its handler; an exception that escapes it replaces what was pending.
\<close>

definition cleanup :: "env \<Rightarrow> run \<Rightarrow> popen \<Rightarrow> 'a result \<times> harness \<Rightarrow> 'a result \<times> harness" where
  "cleanup e r sp pending =
     (case interrupt_wait_and_kill e r sp of
        (None, evs) \<Rightarrow> (fst pending, (snd pending)\<lparr>log := log (snd pending) @ evs\<rparr>)
      | (Some x, evs) \<Rightarrow> (Raises x, (snd pending)\<lparr>log := log (snd pending) @ evs\<rparr>))"

definition too_many :: string where
  "too_many = ''Too many timeouts - we've probably broken something. Aborting.''"

text \<open>The handler of \<open>subprocess.TimeoutExpired\<close>.\<close>

definition on_timeout :: "config \<Rightarrow> env \<Rightarrow> bytes \<Rightarrow> harness \<Rightarrow> signature result \<times> harness" where
  "on_timeout cfg e s st =
     (let st1 = record_in cfg e (timeouts cfg) s st;
          st2 = st1\<lparr>consecutive_timeouts := consecutive_timeouts st1 + 1\<rparr>
      in if consecutive_timeouts st2 > 50
         then (Raises (SystemExit 1), emit (Echo too_many) st2)
         else (Returns {}, st2))"

text \<open>What follows the \<open>try\<close> statement, for a process that exited with \<open>rc\<close>.\<close>

definition on_exit :: "config \<Rightarrow> env \<Rightarrow> bytes \<Rightarrow> int \<Rightarrow> harness \<Rightarrow> signature result \<times> harness" where
  "on_exit cfg e s rc st0 =
     (let st = st0\<lparr>consecutive_timeouts := 0\<rparr>
      in if rc < 0 \<or> rc > 127 then (Returns {}, record_in cfg e (crashes cfg) s st)
         else
           (case fs st (output' cfg) of
              None \<Rightarrow>
                (Returns {''return-'' @ format_d rc, ''output-'' @ format_s None}, st)
            | Some c \<Rightarrow>
                (let output_contents = slice_to (hash_size cfg) (sha1_hexdigest e c);
                     gallery_file =
                       os_path_join (gallery cfg)
                         (output_contents @ ''-'' @ os_path_basename (output' cfg))
                 in (Returns {''return-'' @ format_d rc,
                              ''output-'' @ format_s (Some output_contents)},
                     emit (Copy (output' cfg) gallery_file)
                       (st\<lparr>fs := (fs st)(gallery_file \<mapsto> c)\<rparr>)))))"

text \<open>
  What \<open>classify\<close> does before it starts the child: choose the stdio, remove the output
  file, write the candidate to the input file.
\<close>

definition prepare :: "config \<Rightarrow> bytes \<Rightarrow> harness \<Rightarrow> stream \<times> harness" where
  "prepare cfg s st =
     (case choose_target st of
        (out, st1) \<Rightarrow> (out, write_file (input cfg) s (unlink_quiet (output' cfg) st1)))"

definition classify :: "config \<Rightarrow> env \<Rightarrow> target \<Rightarrow> bytes \<Rightarrow> harness \<Rightarrow> signature result \<times> harness" where
  "classify cfg e tgt s st =
     (case prepare cfg s st of
        (out, st1) \<Rightarrow>
          (case launch cfg tgt out st1 of
             (r, sp, st2) \<Rightarrow>
               (let st3 = st2\<lparr>fs := files_after r\<rparr>
                in case communicate cfg r of
                     Never \<Rightarrow> (Blocks, st3)
                   | Expired \<Rightarrow> cleanup e r sp (on_timeout cfg e s st3)
                   | Exited rc \<Rightarrow>
                       (case cleanup e r (sp\<lparr>returncode := Some rc\<rparr>) (Returns (), st3) of
                          (Returns u, st4) \<Rightarrow> on_exit cfg e s rc st4
                        | (Raises x, st4) \<Rightarrow> (Raises x, st4)
                        | (Blocks, st4) \<Rightarrow> (Blocks, st4)))))"

text \<open>
  The calls of one run, one after the other on the candidates given. Nothing in \<open>main\<close>
  catches an exception of \<open>classify\<close>, so the first call that does not return ends the
  run.
\<close>

fun classify_all ::
  "config \<Rightarrow> env \<Rightarrow> target \<Rightarrow> bytes list \<Rightarrow> harness \<Rightarrow> signature list result \<times> harness" where
  "classify_all cfg e tgt [] st = (Returns [], st)"
| "classify_all cfg e tgt (s # ss) st =
     (case classify cfg e tgt s st of
        (Returns sig, st1) \<Rightarrow>
          (case classify_all cfg e tgt ss st1 of
             (Returns sigs, st2) \<Rightarrow> (Returns (sig # sigs), st2)
           | (Raises x, st2) \<Rightarrow> (Raises x, st2)
           | (Blocks, st2) \<Rightarrow> (Blocks, st2))
      | (Raises x, st1) \<Rightarrow> (Raises x, st1)
      | (Blocks, st1) \<Rightarrow> (Blocks, st1))"

text \<open>The harness when \<open>main\<close> has defined \<open>classify\<close>, on the file system \<open>f\<close>.\<close>

definition fresh :: "filesystem \<Rightarrow> harness" where
  "fresh f = \<lparr>first_call = True, consecutive_timeouts = 0, fs = f, launches = 0, log = []\<rparr>"

text \<open>
  The process that \<open>classify\<close> starts for the candidate \<open>s\<close> in the state \<open>st\<close>: the
  first component of what \<open>launch\<close> returns after \<open>prepare\<close>.
\<close>

definition child :: "config \<Rightarrow> target \<Rightarrow> bytes \<Rightarrow> harness \<Rightarrow> run" where
  "child cfg tgt s st = (case prepare cfg s st of (out, st1) \<Rightarrow> fst (launch cfg tgt out st1))"

section \<open>What can be observed of a run\<close>

text \<open>The stdio given to each process launched, in the order of the launches.\<close>

fun stdio_of :: "event \<Rightarrow> stream list" where
  "stdio_of (Launch c out) = [out]"
| "stdio_of ev = []"

definition launched_stdio :: "harness \<Rightarrow> stream list" where
  "launched_stdio st = concat (map stdio_of (log st))"

text \<open>
  Of the ten polls that the cleanup makes at most, the number that find the process
  still running before the first one that finds it exited.
\<close>

definition unanswered :: "run \<Rightarrow> nat" where
  "unanswered r = length (takeWhile (\<lambda>i. poll r i = None) [0..<10])"

section \<open>The shrinker and the end of main\<close>









section \<open>A concrete run\<close>

text \<open>
  A command line with the default options, and an environment in which the engine runs
  with group id 1000. Its digests are those of SHA-1 on the three byte strings the
  examples hash.
\<close>

definition cfg0 :: config where
  "cfg0 = \<lparr>command = ''./target'', input = ''in'', output' = ''out'', corpus = ''/c'',
            timeout = 5, debug = False, hash_size = 8\<rparr>"

definition sha1_known :: "bytes \<Rightarrow> string" where
  "sha1_known s =
     (if s = [] then ''da39a3ee5e6b4b0d3255bfef95601890afd80709''
      else if s = [65] then ''6dcd4ce23d88e2ee9568ba546c007c63d9131c1b''
      else if s = [65, 66, 67, 68, 69, 70, 71, 72] then ''c15eb4b55bd000f4a876c1d715bee42e62b3e576''
      else replicate 40 (CHR ''0''))"

definition e0 :: env where
  "e0 = \<lparr>sha1_hexdigest = sha1_known, os_getgid = 1000\<rparr>"

text \<open>
  Four targets. \<open>copies\<close> exits with status 0 after a tenth of a second and leaves its
  input in the output file; \<open>silent\<close> exits with status 3 and writes nothing; \<open>segv\<close> is
  killed by signal 11; \<open>hangs\<close> never exits by itself and dies at the first poll after
  the interrupt. The \<open>n\<close>-th child has the pid \<open>4000 + n\<close> and leads its own group.
\<close>

definition copies :: target where
  "copies n f = \<lparr>pid = 4000 + n, exit_after = Some (1 / 10), exit_status = 0,
                  files_after = f(''out'' := f ''in''), pgid = Some (4000 + n),
                  poll = (\<lambda>i. Some 0),
                  forgotten = False, missed = (\<lambda>sig. False)\<rparr>"

definition silent :: target where
  "silent n f = \<lparr>pid = 4000 + n, exit_after = Some (1 / 10), exit_status = 3,
                  files_after = f, pgid = Some (4000 + n), poll = (\<lambda>i. Some 3),
                  forgotten = False, missed = (\<lambda>sig. False)\<rparr>"

definition segv :: target where
  "segv n f = \<lparr>pid = 4000 + n, exit_after = Some (1 / 10), exit_status = - 11,
                files_after = f, pgid = Some (4000 + n), poll = (\<lambda>i. Some (- 11)),
                forgotten = False, missed = (\<lambda>sig. False)\<rparr>"

definition hangs :: target where
  "hangs n f = \<lparr>pid = 4000 + n, exit_after = None, exit_status = 0,
                 files_after = f, pgid = Some (4000 + n), poll = (\<lambda>i. Some (- 2)),
                 forgotten = False, missed = (\<lambda>sig. False)\<rparr>"

text \<open>
  More targets, none of which exits by itself. \<open>stubborn\<close> ignores the interrupt: no
  poll finds it exited, and it is there when the kill is sent. \<open>lingers\<close> runs through
  the ten polls and exits during the sleep that follows the tenth: it has exited at the
  end of the grace period, and the kernel keeps it until it is waited for. \<open>reaped\<close> does
  the same where the kernel forgets a child as soon as it exits. \<open>vanished\<close> is a child
  the kernel no longer knows when the cleanup first looks its group up. \<open>unlucky\<close> is a
  child whose pid, and so whose group id, is 1000, the number that is also the group id
  of the engine.
\<close>

definition stubborn :: target where
  "stubborn n f = \<lparr>pid = 4000 + n, exit_after = None, exit_status = 0,
                    files_after = f, pgid = Some (4000 + n), poll = (\<lambda>i. None),
                    forgotten = False, missed = (\<lambda>sig. False)\<rparr>"

definition lingers :: target where
  "lingers n f = \<lparr>pid = 4000 + n, exit_after = None, exit_status = 0,
                   files_after = f, pgid = Some (4000 + n),
                   poll = (\<lambda>i. if i < 10 then None else Some (- 2)),
                   forgotten = False, missed = (\<lambda>sig. False)\<rparr>"

definition reaped :: target where
  "reaped n f = \<lparr>pid = 4000 + n, exit_after = None, exit_status = 0,
                  files_after = f, pgid = Some (4000 + n),
                  poll = (\<lambda>i. if i < 10 then None else Some 0),
                  forgotten = True, missed = (\<lambda>sig. sig = SIGKILL)\<rparr>"

definition vanished :: target where
  "vanished n f = \<lparr>pid = 4000 + n, exit_after = None, exit_status = 0,
                    files_after = f, pgid = None, poll = (\<lambda>i. Some 0),
                    forgotten = True, missed = (\<lambda>sig. True)\<rparr>"

definition unlucky :: target where
  "unlucky n f = \<lparr>pid = 1000, exit_after = None, exit_status = 0,
                   files_after = f, pgid = Some 1000, poll = (\<lambda>i. Some (- 2)),
                   forgotten = False, missed = (\<lambda>sig. False)\<rparr>"

text \<open>A running process with two of its streams connected to pipes.\<close>

definition piped :: popen where
  "piped = \<lparr>sp_pid = 4000, returncode = None, sp_stdout = Some (Pipe 1),
            sp_stderr = Some (Pipe 2), sp_stdin = None\<rparr>"



section \<open>What one call does\<close>

lemma prepare_eq:
  "prepare cfg s st =
     (if first_call st then Stdout else DEVNULL,
      st\<lparr>first_call := False,
         fs := (fs st)(output' cfg := None, input cfg \<mapsto> s),
         log := log st @ [Unlink (output' cfg), Write (input cfg) s]\<rparr>)"
  by (simp add: prepare_def choose_target_def write_file_def unlink_quiet_def emit_def)

lemma child_eq:
  "child cfg tgt s st = tgt (launches st) ((fs st)(output' cfg := None, input cfg \<mapsto> s))"
  by (simp add: child_def prepare_eq launch_def Let_def)

lemma iwk_cases:
  "interrupt_wait_and_kill e r sp =
    (if returncode sp \<noteq> None then (None, [])
     else case pgid r of
        None \<Rightarrow> (None, close_pipes sp)
      | Some g \<Rightarrow>
          if g = os_getgid e then (Some AssertionError, close_pipes sp)
          else if missed r SIGINT then (None, close_pipes sp)
          else (None, close_pipes sp @ [Killpg g SIGINT] @ snd (poll_loop r 0 10)
                   @ (if fst (poll_loop r 0 10) \<or> forgotten r \<or> missed r SIGKILL then []
                      else [Killpg g SIGKILL])))"
  by (auto simp: interrupt_wait_and_kill_def signal_group_def os_getpgid_def os_killpg_def
      split: option.splits prod.splits bool.splits)

lemma iwk_fst_running:
  "fst (interrupt_wait_and_kill e r sp) =
     (if returncode sp = None \<and> pgid r = Some (os_getgid e) then Some AssertionError else None)"
  by (auto simp: iwk_cases split: option.splits)

lemma classify_expired:
  assumes "communicate cfg (child cfg tgt s st) = Expired"
  shows "classify cfg e tgt s st =
     cleanup e (child cfg tgt s st)
       \<lparr>sp_pid = pid (child cfg tgt s st), returncode = None,
        sp_stdout = None, sp_stderr = None, sp_stdin = None\<rparr>
       (on_timeout cfg e s
          (st\<lparr>first_call := False,
              fs := files_after (child cfg tgt s st),
              launches := Suc (launches st),
              log := log st @ [Unlink (output' cfg), Write (input cfg) s,
                               Launch (command cfg) (if first_call st then Stdout else DEVNULL)]\<rparr>))"
  using assms
  by (cases st) (simp add: classify_def child_eq prepare_eq launch_def Let_def emit_def)

lemma classify_exited:
  assumes "communicate cfg (child cfg tgt s st) = Exited rc"
  shows "classify cfg e tgt s st =
     on_exit cfg e s rc
          (st\<lparr>first_call := False,
              fs := files_after (child cfg tgt s st),
              launches := Suc (launches st),
              log := log st @ [Unlink (output' cfg), Write (input cfg) s,
                               Launch (command cfg) (if first_call st then Stdout else DEVNULL)]\<rparr>)"
  using assms
  by (cases st) (simp add: classify_def child_eq prepare_eq launch_def Let_def emit_def cleanup_def iwk_cases)

lemma classify_never_snd:
  assumes "communicate cfg (child cfg tgt s st) = Never"
  shows "snd (classify cfg e tgt s st) =
          (st\<lparr>first_call := False,
              fs := files_after (child cfg tgt s st),
              launches := Suc (launches st),
              log := log st @ [Unlink (output' cfg), Write (input cfg) s,
                               Launch (command cfg) (if first_call st then Stdout else DEVNULL)]\<rparr>)"
  using assms
  by (cases st) (simp add: classify_def child_eq prepare_eq launch_def Let_def emit_def)

lemma on_timeout_fst:
  "fst (on_timeout cfg e s st) =
     (if consecutive_timeouts st + 1 > 50 then Raises (SystemExit 1) else Returns {})"
  by (simp add: on_timeout_def Let_def record_in_def write_file_def emit_def)

lemma on_timeout_snd:
  "snd (on_timeout cfg e s st) =
     st\<lparr>consecutive_timeouts := consecutive_timeouts st + 1,
        fs := (fs st)(os_path_join (timeouts cfg) (hashed_name cfg e s) \<mapsto> s),
        log := log st @ [Write (os_path_join (timeouts cfg) (hashed_name cfg e s)) s]
                 @ (if consecutive_timeouts st + 1 > 50 then [Echo too_many] else [])\<rparr>"
  by (cases st) (simp add: on_timeout_def Let_def record_in_def write_file_def emit_def)

lemma cleanup_fst:
  "fst (cleanup e r sp p) =
     (case fst (interrupt_wait_and_kill e r sp) of None \<Rightarrow> fst p | Some x \<Rightarrow> Raises x)"
  by (simp add: cleanup_def split: prod.splits option.splits)

lemma cleanup_snd:
  "snd (cleanup e r sp p) = (snd p)\<lparr>log := log (snd p) @ snd (interrupt_wait_and_kill e r sp)\<rparr>"
  by (simp add: cleanup_def split: prod.splits option.splits)

lemma on_exit_crash:
  assumes "rc < 0 \<or> rc > 127"
  shows "on_exit cfg e s rc st =
     (Returns {}, st\<lparr>consecutive_timeouts := 0,
        fs := (fs st)(os_path_join (crashes cfg) (hashed_name cfg e s) \<mapsto> s),
        log := log st @ [Write (os_path_join (crashes cfg) (hashed_name cfg e s)) s]\<rparr>)"
  using assms by (cases st) (auto simp add: on_exit_def Let_def record_in_def write_file_def emit_def)

lemma on_exit_normal_fst:
  assumes "0 \<le> rc" "rc \<le> 127"
  shows "fst (on_exit cfg e s rc st) =
     Returns {''return-'' @ format_d rc,
              ''output-'' @ (case fs st (output' cfg) of
                               None \<Rightarrow> ''None''
                             | Some c \<Rightarrow> slice_to (hash_size cfg) (sha1_hexdigest e c))}"
  using assms by (simp add: on_exit_def Let_def format_s_def split: option.splits)

lemma on_exit_counter:
  "consecutive_timeouts (snd (on_exit cfg e s rc st)) = 0"
  by (simp add: on_exit_def Let_def record_in_def write_file_def emit_def split: option.splits)

lemma on_exit_fields:
  "first_call (snd (on_exit cfg e s rc st)) = first_call st"
  "launches (snd (on_exit cfg e s rc st)) = launches st"
  "concat (map stdio_of (log (snd (on_exit cfg e s rc st)))) = concat (map stdio_of (log st))"
  by (simp_all add: on_exit_def Let_def record_in_def write_file_def emit_def launched_stdio_def
      split: option.splits)

lemma classify_first_call: "first_call (snd (classify cfg e tgt s st)) = False"
  by (cases "communicate cfg (child cfg tgt s st)")
     (simp_all add: classify_exited classify_expired classify_never_snd on_exit_fields
        cleanup_snd on_timeout_snd)

lemma classify_launches: "launches (snd (classify cfg e tgt s st)) = Suc (launches st)"
  by (cases "communicate cfg (child cfg tgt s st)")
     (simp_all add: classify_exited classify_expired classify_never_snd on_exit_fields
        cleanup_snd on_timeout_snd)


lemma classify_timeout_fst:
  assumes "communicate cfg (child cfg tgt s st) = Expired"
      and "pgid (child cfg tgt s st) \<noteq> Some (os_getgid e)"
  shows "fst (classify cfg e tgt s st) =
           (if consecutive_timeouts st + 1 > 50 then Raises (SystemExit 1) else Returns {})"
  using assms
  by (simp add: classify_expired cleanup_fst on_timeout_fst iwk_fst_running)

lemma classify_timeout_counter:
  assumes "communicate cfg (child cfg tgt s st) = Expired"
  shows "consecutive_timeouts (snd (classify cfg e tgt s st)) = consecutive_timeouts st + 1"
  using assms by (simp add: classify_expired cleanup_snd on_timeout_snd)

subsection \<open>The polling loop\<close>

lemma poll_loop_eq:
  "poll_loop r i n =
     (let k = length (takeWhile (\<lambda>j. poll r j = None) [i..<i + n])
      in (k < n, concat (replicate k [Poll None, Sleep 100]) @
                 (if k = n then [] else [Poll (poll r (i + k))])))"
proof (induction n arbitrary: i)
  case 0
  show ?case by simp
next
  case (Suc n)
  have upt: "[i..<i + Suc n] = i # [Suc i..<Suc i + n]"
    by (simp add: upt_conv_Cons del: upt_Suc)
  show ?case
  proof (cases "poll r i")
    case None
    have "poll_loop r i (Suc n) =
            (fst (poll_loop r (Suc i) n), Poll None # Sleep 100 # snd (poll_loop r (Suc i) n))"
      using None by (simp add: case_prod_beta)
    then show ?thesis
      unfolding upt Suc.IH [of "Suc i"] using None by (simp add: Let_def)
  next
    case (Some rc)
    then show ?thesis
      unfolding upt by (simp add: Let_def)
  qed
qed

lemma length_takeWhile_all:
  "(length (takeWhile P xs) = length xs) = (\<forall>x\<in>set xs. P x)"
  by (induction xs) auto

lemma unanswered_ten: "(unanswered r = 10) = (\<forall>i<10. poll r i = None)"
  using length_takeWhile_all [of "\<lambda>i. poll r i = None" "[0..<10]"]
  by (simp add: unanswered_def Ball_def del: upt_Suc)

lemma replicate_ten: "replicate 10 x = [x, x, x, x, x, x, x, x, x, x]"
  by (simp add: numeral_eq_Suc)

subsection \<open>The stdio of the launches\<close>

lemma stdio_poll_loop: "concat (map stdio_of (snd (poll_loop r i n))) = []"
  by (simp add: poll_loop_eq Let_def)

lemma stdio_close_pipes: "concat (map stdio_of (close_pipes sp)) = []"
  by (auto simp: close_pipes_def split: option.splits)

lemma stdio_iwk: "concat (map stdio_of (snd (interrupt_wait_and_kill e r sp))) = []"
  using stdio_poll_loop [of r 0 10] stdio_close_pipes [of sp]
  by (auto simp: iwk_cases split: option.splits)

lemma classify_stdio:
  "launched_stdio (snd (classify cfg e tgt s st)) =
     launched_stdio st @ [if first_call st then Stdout else DEVNULL]"
  by (cases "communicate cfg (child cfg tgt s st)")
     (simp_all add: classify_exited classify_expired classify_never_snd on_exit_fields
        cleanup_snd on_timeout_snd launched_stdio_def stdio_iwk)

section \<open>What a run of calls does\<close>

lemma classify_all_step:
  assumes "classify cfg e tgt s st = (Returns sig, st1)"
  shows "fst (classify_all cfg e tgt (s # ss) st) =
           (case fst (classify_all cfg e tgt ss st1) of
              Returns sigs \<Rightarrow> Returns (sig # sigs)
            | Raises x \<Rightarrow> Raises x
            | Blocks \<Rightarrow> Blocks)"
    and "snd (classify_all cfg e tgt (s # ss) st) = snd (classify_all cfg e tgt ss st1)"
  using assms by (simp_all split: prod.splits result.splits)

lemma classify_all_quiet:
  assumes "\<not> first_call st"
  shows "\<exists>k\<le>length ss.
           launched_stdio (snd (classify_all cfg e tgt ss st)) = launched_stdio st @ replicate k DEVNULL \<and>
           launches (snd (classify_all cfg e tgt ss st)) = launches st + k \<and>
           \<not> first_call (snd (classify_all cfg e tgt ss st))"
  using assms
proof (induction ss arbitrary: st)
  case Nil
  then show ?case by simp
next
  case (Cons s ss)
  obtain res st1 where c: "classify cfg e tgt s st = (res, st1)"
    by (cases "classify cfg e tgt s st")
  have st1: "launched_stdio st1 = launched_stdio st @ [DEVNULL]"
            "launches st1 = Suc (launches st)" "\<not> first_call st1"
    using classify_stdio [of cfg e tgt s st] classify_launches [of cfg e tgt s st]
          classify_first_call [of cfg e tgt s st] Cons.prems c by simp_all
  show ?case
  proof (cases res)
    case (Returns sig)
    from Cons.IH [OF st1(3)] obtain k where k: "k \<le> length ss"
      "launched_stdio (snd (classify_all cfg e tgt ss st1)) = launched_stdio st1 @ replicate k DEVNULL"
      "launches (snd (classify_all cfg e tgt ss st1)) = launches st1 + k"
      "\<not> first_call (snd (classify_all cfg e tgt ss st1))"
      by blast
    have "snd (classify_all cfg e tgt (s # ss) st) = snd (classify_all cfg e tgt ss st1)"
      using c Returns by (simp split: prod.splits result.splits)
    with k st1 show ?thesis
      by (intro exI [of _ "Suc k"]) (simp add: replicate_app_Cons_same)
  next
    case (Raises x)
    with c st1 show ?thesis
      by (intro exI [of _ "Suc 0"]) simp
  next
    case Blocks
    with c st1 show ?thesis
      by (intro exI [of _ "Suc 0"]) simp
  qed
qed

lemma classify_all_stdio:
  "launched_stdio (snd (classify_all cfg e tgt ss (fresh f))) =
     take (launches (snd (classify_all cfg e tgt ss (fresh f)))) (Stdout # replicate (length ss) DEVNULL)"
proof (cases ss)
  case Nil
  then show ?thesis by (simp add: fresh_def launched_stdio_def)
next
  case (Cons s ss')
  obtain res st1 where c: "classify cfg e tgt s (fresh f) = (res, st1)"
    by (cases "classify cfg e tgt s (fresh f)")
  have st1: "launched_stdio st1 = [Stdout]" "launches st1 = 1" "\<not> first_call st1"
    using classify_stdio [of cfg e tgt s "fresh f"] classify_launches [of cfg e tgt s "fresh f"]
          classify_first_call [of cfg e tgt s "fresh f"] c
    by (simp_all add: fresh_def launched_stdio_def)
  show ?thesis
  proof (cases res)
    case (Returns sig)
    from classify_all_quiet [OF st1(3), of ss' cfg e tgt] obtain k where k: "k \<le> length ss'"
      "launched_stdio (snd (classify_all cfg e tgt ss' st1)) = launched_stdio st1 @ replicate k DEVNULL"
      "launches (snd (classify_all cfg e tgt ss' st1)) = launches st1 + k"
      by blast
    have "snd (classify_all cfg e tgt ss (fresh f)) = snd (classify_all cfg e tgt ss' st1)"
      using c Returns Cons by (simp split: prod.splits result.splits)
    moreover have "take k (DEVNULL # replicate (length ss') DEVNULL) = replicate k DEVNULL"
      using k(1) take_replicate [of k "Suc (length ss')" DEVNULL] by (simp add: min_def)
    ultimately show ?thesis
      using k st1 Cons by simp
  next
    case (Raises x)
    with c st1 Cons show ?thesis by simp
  next
    case Blocks
    with c st1 Cons show ?thesis by simp
  qed
qed

lemma classify_all_launches_returned:
  assumes "\<And>n f. \<exists>rc. communicate cfg (tgt n f) = Exited rc"
  shows "launches (snd (classify_all cfg e tgt ss st)) = launches st + length ss"
proof (induction ss arbitrary: st)
  case Nil
  show ?case by simp
next
  case (Cons s ss)
  obtain rc where rc: "communicate cfg (child cfg tgt s st) = Exited rc"
    using assms by (auto simp: child_eq)
  obtain res st1 where c: "classify cfg e tgt s st = (res, st1)"
    by (cases "classify cfg e tgt s st")
  have "\<exists>sig. res = Returns sig"
    using c rc
    by (auto simp: classify_exited on_exit_def Let_def split: if_splits option.splits)
  then obtain sig where res: "res = Returns sig" ..
  have "launches st1 = Suc (launches st)"
    using classify_launches [of cfg e tgt s st] c by simp
  with Cons.IH [of st1] classify_all_step(2) [OF c [unfolded res], of ss]
  show ?case by simp
qed

lemma timeouts_tolerated:
  assumes "\<And>n f. communicate cfg (tgt n f) = Expired"
      and "\<And>n f. pgid (tgt n f) \<noteq> Some (os_getgid e)"
      and "consecutive_timeouts st + int (length ss) \<le> 50"
  shows "fst (classify_all cfg e tgt ss st) = Returns (replicate (length ss) {}) \<and>
         consecutive_timeouts (snd (classify_all cfg e tgt ss st)) =
           consecutive_timeouts st + int (length ss) \<and>
         launches (snd (classify_all cfg e tgt ss st)) = launches st + length ss"
  using assms(3)
proof (induction ss arbitrary: st)
  case Nil
  then show ?case by simp
next
  case (Cons s ss)
  obtain res st1 where c: "classify cfg e tgt s st = (res, st1)"
    by (cases "classify cfg e tgt s st")
  have ex: "communicate cfg (child cfg tgt s st) = Expired"
   and ok: "pgid (child cfg tgt s st) \<noteq> Some (os_getgid e)"
    by (simp_all add: child_eq assms(1,2))
  have res: "res = Returns {}"
    using classify_timeout_fst [OF ex ok] c Cons.prems by simp
  have st1: "consecutive_timeouts st1 = consecutive_timeouts st + 1"
            "launches st1 = Suc (launches st)"
    using classify_timeout_counter [OF ex, of e] classify_launches [of cfg e tgt s st] c by simp_all
  have "consecutive_timeouts st1 + int (length ss) \<le> 50"
    using Cons.prems st1 by simp
  from Cons.IH [OF this] show ?case
    using classify_all_step [OF c [unfolded res], of ss] st1 by simp
qed

lemma timeouts_abort:
  assumes "\<And>n f. communicate cfg (tgt n f) = Expired"
      and "\<And>n f. pgid (tgt n f) \<noteq> Some (os_getgid e)"
      and "consecutive_timeouts st \<le> 50"
      and "50 < consecutive_timeouts st + int (length ss)"
  shows "fst (classify_all cfg e tgt ss st) = Raises (SystemExit 1) \<and>
         consecutive_timeouts (snd (classify_all cfg e tgt ss st)) = 51 \<and>
         int (launches (snd (classify_all cfg e tgt ss st))) =
           int (launches st) + (51 - consecutive_timeouts st)"
  using assms(3,4)
proof (induction ss arbitrary: st)
  case Nil
  then show ?case by simp
next
  case (Cons s ss)
  obtain res st1 where c: "classify cfg e tgt s st = (res, st1)"
    by (cases "classify cfg e tgt s st")
  have ex: "communicate cfg (child cfg tgt s st) = Expired"
   and ok: "pgid (child cfg tgt s st) \<noteq> Some (os_getgid e)"
    by (simp_all add: child_eq assms(1,2))
  have st1: "consecutive_timeouts st1 = consecutive_timeouts st + 1"
            "launches st1 = Suc (launches st)"
    using classify_timeout_counter [OF ex, of e] classify_launches [of cfg e tgt s st] c by simp_all
  show ?case
  proof (cases "consecutive_timeouts st = 50")
    case True
    then have "res = Raises (SystemExit 1)"
      using classify_timeout_fst [OF ex ok] c by simp
    then show ?thesis
      using c st1 True by simp
  next
    case False
    then have res: "res = Returns {}"
      using classify_timeout_fst [OF ex ok] c Cons.prems by simp
    have "consecutive_timeouts st1 \<le> 50" "50 < consecutive_timeouts st1 + int (length ss)"
      using Cons.prems st1 False by simp_all
    from Cons.IH [OF this] show ?thesis
      using classify_all_step [OF c [unfolded res], of ss] st1 by simp
  qed
qed

section \<open>Facts about the concrete run\<close>

lemma hangs_expired: "communicate cfg0 (hangs n f) = Expired"
  by (simp add: communicate_def cfg0_def hangs_def)

lemma hangs_group: "pgid (hangs n f) \<noteq> Some (os_getgid e0)"
  by (simp add: hangs_def e0_def)

lemma copies_exits: "communicate cfg0 (copies n f) = Exited 0"
  by (simp add: communicate_def cfg0_def copies_def)


lemma unanswered_stubborn: "unanswered (stubborn 0 Map.empty) = 10"
  by (simp add: unanswered_ten stubborn_def)

lemma unanswered_hangs: "unanswered (hangs 0 Map.empty) = 0"
  by (simp add: unanswered_def hangs_def upt_conv_Cons del: upt_Suc)

section \<open>What the shrinker does with a new candidate\<close>


section \<open>The circuit breaker\<close>

text \<open>
  C1, as the code has it. A classification that does not time out sets the counter of
  consecutive timeouts to zero. With a target that always times out (and whose cleanup
  raises nothing), a run that starts with the counter at zero does not abort during its
  first 50 calls: each of them returns the discard signature and the counter equals the
  number of calls made. The 51st call, the first that takes the counter above 50, raises
  \<open>SystemExit(1)\<close>, and no 52nd process is ever launched.
\<close>

theorem circuit_breaker_after_fifty_one:
  assumes "\<And>n f. communicate cfg (tgt n f) = Expired"
      and "\<And>n f. pgid (tgt n f) \<noteq> Some (os_getgid e)"
  shows "(length ss \<le> 50 \<longrightarrow>
            fst (classify_all cfg e tgt ss (fresh f0)) = Returns (replicate (length ss) {}) \<and>
            consecutive_timeouts (snd (classify_all cfg e tgt ss (fresh f0))) = int (length ss)) \<and>
         (50 < length ss \<longrightarrow>
            fst (classify_all cfg e tgt ss (fresh f0)) = Raises (SystemExit 1) \<and>
            launches (snd (classify_all cfg e tgt ss (fresh f0))) = 51) \<and>
         (\<forall>other s st rc. communicate cfg (child cfg other s st) = Exited rc \<longrightarrow>
            consecutive_timeouts (snd (classify cfg e other s st)) = 0)"
proof (intro conjI impI allI)
  assume "length ss \<le> 50"
  then have "consecutive_timeouts (fresh f0) + int (length ss) \<le> 50"
    by (simp add: fresh_def)
  from timeouts_tolerated [OF assms this]
  show "fst (classify_all cfg e tgt ss (fresh f0)) = Returns (replicate (length ss) {})"
   and "consecutive_timeouts (snd (classify_all cfg e tgt ss (fresh f0))) = int (length ss)"
    by (simp_all add: fresh_def)
next
  assume "50 < length ss"
  then have "consecutive_timeouts (fresh f0) \<le> 50"
        and "50 < consecutive_timeouts (fresh f0) + int (length ss)"
    by (simp_all add: fresh_def)
  from timeouts_abort [OF assms this]
  show "fst (classify_all cfg e tgt ss (fresh f0)) = Raises (SystemExit 1)"
   and "launches (snd (classify_all cfg e tgt ss (fresh f0))) = 51"
    by (simp_all add: fresh_def)
next
  fix other s st rc
  assume "communicate cfg (child cfg other s st) = Exited rc"
  then show "consecutive_timeouts (snd (classify cfg e other s st)) = 0"
    by (simp add: classify_exited on_exit_counter)
qed

theorem circuit_breaker_after_fifty_one_witness:
  "fst (classify_all cfg0 e0 hangs (replicate 50 []) (fresh Map.empty)) = Returns (replicate 50 {}) \<and>
   fst (classify_all cfg0 e0 hangs (replicate 51 []) (fresh Map.empty)) = Raises (SystemExit 1) \<and>
   launches (snd (classify_all cfg0 e0 hangs (replicate 51 []) (fresh Map.empty))) = 51 \<and>
   fst (classify_all cfg0 e0 hangs (replicate 60 []) (fresh Map.empty)) = Raises (SystemExit 1) \<and>
   launches (snd (classify_all cfg0 e0 hangs (replicate 60 []) (fresh Map.empty))) = 51 \<and>
   communicate cfg0 (child cfg0 copies [] (fresh Map.empty\<lparr>consecutive_timeouts := 7\<rparr>)) = Exited 0 \<and>
   consecutive_timeouts
     (snd (classify cfg0 e0 copies [] (fresh Map.empty\<lparr>consecutive_timeouts := 7\<rparr>))) = 0"
  using circuit_breaker_after_fifty_one
          [of cfg0 hangs e0 "replicate 50 []" Map.empty, OF hangs_expired hangs_group]
        circuit_breaker_after_fifty_one
          [of cfg0 hangs e0 "replicate 51 []" Map.empty, OF hangs_expired hangs_group]
        circuit_breaker_after_fifty_one
          [of cfg0 hangs e0 "replicate 60 []" Map.empty, OF hangs_expired hangs_group]
  by (simp add: child_eq communicate_def cfg0_def copies_def)

text \<open>
  The claim as stated puts the abort at the 50th consecutive timeout. After exactly 50
  consecutive timeouts all 50 calls have returned and the counter is 50.
\<close>

theorem fifty_timeouts_do_not_abort:
  "fst (classify_all cfg0 e0 hangs (replicate 50 []) (fresh Map.empty)) = Returns (replicate 50 {}) \<and>
   consecutive_timeouts (snd (classify_all cfg0 e0 hangs (replicate 50 []) (fresh Map.empty))) = 50 \<and>
   launches (snd (classify_all cfg0 e0 hangs (replicate 50 []) (fresh Map.empty))) = 50"
  using timeouts_tolerated [of cfg0 hangs e0 "fresh Map.empty" "replicate 50 []",
          OF hangs_expired hangs_group]
  by (simp add: fresh_def)

section \<open>Normal termination\<close>

text \<open>
  C2. When the target terminates normally, that is \<open>communicate\<close> returns with an exit
  status between 0 and 127, \<open>classify\<close> returns a signature of exactly two labels:
  \<open>return-\<close> followed by the exit status in decimal, and \<open>output-\<close> followed by the SHA-1
  hex digest of the output file cut to \<open>hash_size\<close> characters when the target left an
  output file, and by \<open>None\<close> when it left none. A missing output file raises nothing.
\<close>

theorem classify_normal_signature:
  assumes "communicate cfg (child cfg tgt s st) = Exited rc" and "0 \<le> rc" and "rc \<le> 127"
  shows "fst (classify cfg e tgt s st) =
     Returns {''return-'' @ format_d rc,
              ''output-'' @ (case files_after (child cfg tgt s st) (output' cfg) of
                               None \<Rightarrow> ''None''
                             | Some c \<Rightarrow> slice_to (hash_size cfg) (sha1_hexdigest e c))}"
  using assms by (simp add: classify_exited on_exit_normal_fst)

theorem classify_normal_signature_witness:
  "communicate cfg0 (child cfg0 copies [] (fresh Map.empty)) = Exited 0 \<and>
   (0::int) \<le> 0 \<and> (0::int) \<le> 127 \<and>
   fst (classify cfg0 e0 copies [] (fresh Map.empty)) = Returns {''return-0'', ''output-da39a3ee''}"
  using classify_normal_signature [of cfg0 copies "[]" "fresh Map.empty" 0 e0]
  by (simp add: child_eq communicate_def cfg0_def copies_def fresh_def e0_def sha1_known_def
      format_d_def digits.simps digit_def slice_to_def)

section \<open>Crashes\<close>

text \<open>
  C3. When the exit status of the target is negative or greater than 127, \<open>classify\<close>
  returns the empty signature, never one with a return or output label, and the
  candidate is written into the crashes directory under its hashed name.
\<close>

theorem classify_crash_discarded:
  assumes "communicate cfg (child cfg tgt s st) = Exited rc" and "rc < 0 \<or> rc > 127"
  shows "fst (classify cfg e tgt s st) = Returns {} \<and>
         fs (snd (classify cfg e tgt s st)) (os_path_join (crashes cfg) (hashed_name cfg e s)) = Some s"
  using assms by (simp add: classify_exited on_exit_crash)

theorem classify_crash_discarded_witness:
  "communicate cfg0 (child cfg0 segv [65] (fresh Map.empty)) = Exited (- 11) \<and>
   ((- 11 :: int) < 0 \<or> (- 11 :: int) > 127) \<and>
   fst (classify cfg0 e0 segv [65] (fresh Map.empty)) = Returns {} \<and>
   fs (snd (classify cfg0 e0 segv [65] (fresh Map.empty))) ''/c/crashes/6dcd4ce2-in'' = Some [65]"
  using classify_crash_discarded [of cfg0 segv "[65]" "fresh Map.empty" "- 11" e0]
  by (simp add: child_eq communicate_def cfg0_def segv_def fresh_def e0_def sha1_known_def
      slice_to_def crashes_def os_path_join_def hashed_name_def name_for_def)

section \<open>Timeouts\<close>

text \<open>
  C4, as the code has it. When the timeout expires, the counter of consecutive timeouts
  is below 50 and the cleanup raises nothing, \<open>classify\<close> returns the empty signature,
  the candidate is written into the timeouts directory under its hashed name, the
  counter grows by one, and \<open>first_call\<close> is false afterwards: besides the counter, the
  first call of a run also clears that flag.
\<close>

theorem classify_timeout_discarded:
  assumes "communicate cfg (child cfg tgt s st) = Expired"
      and "pgid (child cfg tgt s st) \<noteq> Some (os_getgid e)"
      and "consecutive_timeouts st < 50"
  shows "fst (classify cfg e tgt s st) = Returns {} \<and>
         fs (snd (classify cfg e tgt s st))
            (os_path_join (timeouts cfg) (hashed_name cfg e s)) = Some s \<and>
         consecutive_timeouts (snd (classify cfg e tgt s st)) = consecutive_timeouts st + 1 \<and>
         first_call (snd (classify cfg e tgt s st)) = False"
  using assms
  by (simp add: classify_expired cleanup_fst cleanup_snd on_timeout_fst on_timeout_snd
      iwk_fst_running)

theorem classify_timeout_discarded_witness:
  "communicate cfg0 (child cfg0 hangs [65] (fresh Map.empty)) = Expired \<and>
   pgid (child cfg0 hangs [65] (fresh Map.empty)) \<noteq> Some (os_getgid e0) \<and>
   consecutive_timeouts (fresh Map.empty) < 50 \<and>
   fst (classify cfg0 e0 hangs [65] (fresh Map.empty)) = Returns {} \<and>
   fs (snd (classify cfg0 e0 hangs [65] (fresh Map.empty))) ''/c/timeouts/6dcd4ce2-in'' = Some [65] \<and>
   consecutive_timeouts (snd (classify cfg0 e0 hangs [65] (fresh Map.empty))) = 1"
  using classify_timeout_discarded [of cfg0 hangs "[65]" "fresh Map.empty" e0]
  by (simp add: child_eq hangs_expired hangs_group)
     (simp add: fresh_def cfg0_def e0_def sha1_known_def slice_to_def timeouts_def
        os_path_join_def hashed_name_def name_for_def)

text \<open>
  The claim as stated leaves the counter as the only variable that a timeout changes.
  The first call of a run times out here, below the threshold, and \<open>first_call\<close>
  changes from true to false.
\<close>

theorem first_timeout_clears_first_call:
  "communicate cfg0 (child cfg0 hangs [65] (fresh Map.empty)) = Expired \<and>
   consecutive_timeouts (fresh Map.empty) < 50 \<and>
   first_call (fresh Map.empty) \<and>
   \<not> first_call (snd (classify cfg0 e0 hangs [65] (fresh Map.empty)))"
  by (simp add: child_eq hangs_expired classify_first_call) (simp add: fresh_def)

section \<open>Cleanup of a running process\<close>

lemma unanswered_late: "unanswered (lingers 0 Map.empty) = 10" "unanswered (reaped 0 Map.empty) = 10"
  by (simp_all add: unanswered_ten lingers_def reaped_def)

lemma poll_loop_ten:
  "poll_loop r 0 10 =
      (unanswered r < 10,
       concat (replicate (unanswered r) [Poll None, Sleep 100]) @
       (if unanswered r = 10 then [] else [Poll (poll r (unanswered r))]))"
  by (simp add: poll_loop_eq Let_def unanswered_def del: upt_Suc)

lemma close_pipes_no_signal: "Killpg g sig \<notin> set (close_pipes sp)"
  by (auto simp: close_pipes_def split: option.splits)

lemma polling_no_kill:
  "Killpg g SIGKILL \<notin>
     set (close_pipes sp @ Killpg g' SIGINT # concat (replicate k [Poll None, Sleep 100]) @ [Poll x])"
  by (auto simp: close_pipes_def split: option.splits)

text \<open>
  C5, as the code has it. For a process that has no return code at cleanup time, when
  the group-id assertion does not fail: the pipes that exist are closed first. Then the
  interrupt signal goes to the process group, then the process is polled up to ten
  times, with a sleep of 100 milliseconds after each poll that finds it running, and
  the first poll that finds it exited ends the cleanup. The kill signal is sent, as the
  last action, only if none of the ten polls found the process exited; the last poll is
  made before the last sleep, so what the process does during that sleep does not
  count. A \<open>ProcessLookupError\<close> ends the cleanup where it is raised: in the first lookup
  of the group (no signal, no poll), in sending the interrupt (no poll), in the second
  lookup or in sending the kill (no kill signal).
\<close>

theorem interrupt_wait_and_kill_trace:
  assumes "returncode sp = None" and "pgid r \<noteq> Some (os_getgid e)"
  shows "interrupt_wait_and_kill e r sp =
     (None,
      close_pipes sp @
      (case pgid r of
         None \<Rightarrow> []
       | Some g \<Rightarrow>
           if missed r SIGINT then []
           else
             Killpg g SIGINT # concat (replicate (unanswered r) [Poll None, Sleep 100]) @
             (if unanswered r = 10
              then (if forgotten r \<or> missed r SIGKILL then [] else [Killpg g SIGKILL])
              else [Poll (poll r (unanswered r))]))) \<and>
     ((unanswered r = 10) = (\<forall>i<10. poll r i = None)) \<and>
     (\<forall>g. Killpg g SIGKILL \<in> set (snd (interrupt_wait_and_kill e r sp)) \<longrightarrow>
            (\<forall>i<10. poll r i = None))"
proof -
  have le: "unanswered r \<le> 10"
    using length_takeWhile_le [of "\<lambda>i. poll r i = None" "[0..<10]"]
    by (simp add: unanswered_def del: upt_Suc)
  have trace: "interrupt_wait_and_kill e r sp =
     (None,
      close_pipes sp @
      (case pgid r of
         None \<Rightarrow> []
       | Some g \<Rightarrow>
           if missed r SIGINT then []
           else
             Killpg g SIGINT # concat (replicate (unanswered r) [Poll None, Sleep 100]) @
             (if unanswered r = 10
              then (if forgotten r \<or> missed r SIGKILL then [] else [Killpg g SIGKILL])
              else [Poll (poll r (unanswered r))])))"
    using assms le by (auto simp: iwk_cases poll_loop_ten split: option.splits)
  have only_if: "unanswered r = 10"
    if sent: "Killpg g SIGKILL \<in> set (snd (interrupt_wait_and_kill e r sp))" for g
  proof (rule ccontr)
    assume ne: "unanswered r \<noteq> 10"
    have "snd (interrupt_wait_and_kill e r sp) = close_pipes sp \<or>
          (\<exists>g'. snd (interrupt_wait_and_kill e r sp) =
                 close_pipes sp @ Killpg g' SIGINT #
                 concat (replicate (unanswered r) [Poll None, Sleep 100]) @
                 [Poll (poll r (unanswered r))])"
      using ne by (cases "pgid r"; cases "missed r SIGINT") (simp_all add: trace)
    then show False
    proof (elim disjE exE)
      assume "snd (interrupt_wait_and_kill e r sp) = close_pipes sp"
      with sent have "Killpg g SIGKILL \<in> set (close_pipes sp)"
        by simp
      then show False
        using close_pipes_no_signal [of g SIGKILL sp] by simp
    next
      fix g'
      assume "snd (interrupt_wait_and_kill e r sp) =
                 close_pipes sp @ Killpg g' SIGINT #
                 concat (replicate (unanswered r) [Poll None, Sleep 100]) @
                 [Poll (poll r (unanswered r))]"
      with sent polling_no_kill [of g sp g' "unanswered r" "poll r (unanswered r)"]
      show False
        by simp
    qed
  qed
  have silent: "(unanswered r = 10) = (\<forall>i<10. poll r i = None)"
    by (rule unanswered_ten)
  have kill: "\<forall>g. Killpg g SIGKILL \<in> set (snd (interrupt_wait_and_kill e r sp)) \<longrightarrow>
            (\<forall>i<10. poll r i = None)"
    using only_if unanswered_ten [of r] by blast
  show ?thesis
    by (rule conjI [OF trace conjI [OF silent kill]])
qed

theorem interrupt_wait_and_kill_trace_witness:
  "returncode piped = None \<and>
   interrupt_wait_and_kill e0 (stubborn 0 Map.empty) piped =
     (None, [ClosePipe (Pipe 1), ClosePipe (Pipe 2), Killpg 4000 SIGINT,
             Poll None, Sleep 100, Poll None, Sleep 100, Poll None, Sleep 100,
             Poll None, Sleep 100, Poll None, Sleep 100, Poll None, Sleep 100,
             Poll None, Sleep 100, Poll None, Sleep 100, Poll None, Sleep 100,
             Poll None, Sleep 100, Killpg 4000 SIGKILL]) \<and>
   interrupt_wait_and_kill e0 (hangs 0 Map.empty) piped =
     (None, [ClosePipe (Pipe 1), ClosePipe (Pipe 2), Killpg 4000 SIGINT, Poll (Some (- 2))]) \<and>
   interrupt_wait_and_kill e0 (reaped 0 Map.empty) piped =
     (None, [ClosePipe (Pipe 1), ClosePipe (Pipe 2), Killpg 4000 SIGINT,
             Poll None, Sleep 100, Poll None, Sleep 100, Poll None, Sleep 100,
             Poll None, Sleep 100, Poll None, Sleep 100, Poll None, Sleep 100,
             Poll None, Sleep 100, Poll None, Sleep 100, Poll None, Sleep 100,
             Poll None, Sleep 100]) \<and>
   interrupt_wait_and_kill e0 (vanished 0 Map.empty) piped =
     (None, [ClosePipe (Pipe 1), ClosePipe (Pipe 2)])"
proof -
  have r: "pgid (stubborn 0 Map.empty) = Some 4000" "pgid (hangs 0 Map.empty) = Some 4000"
          "pgid (reaped 0 Map.empty) = Some 4000" "pgid (vanished 0 Map.empty) = None"
          "poll (hangs 0 Map.empty) 0 = Some (- 2)"
          "\<not> missed (stubborn 0 Map.empty) sig" "\<not> missed (hangs 0 Map.empty) sig"
          "\<not> forgotten (stubborn 0 Map.empty)"
          "\<not> missed (reaped 0 Map.empty) SIGINT" "forgotten (reaped 0 Map.empty)" for sig
    by (simp_all add: stubborn_def hangs_def reaped_def vanished_def)
  show ?thesis
    using interrupt_wait_and_kill_trace [of piped "stubborn 0 Map.empty" e0]
          interrupt_wait_and_kill_trace [of piped "hangs 0 Map.empty" e0]
          interrupt_wait_and_kill_trace [of piped "reaped 0 Map.empty" e0]
          interrupt_wait_and_kill_trace [of piped "vanished 0 Map.empty" e0]
    by (simp add: unanswered_stubborn unanswered_hangs unanswered_late r piped_def e0_def
        close_pipes_def replicate_ten)
qed

text \<open>
  The claim as stated sends the kill signal only to a process that has not exited by
  the end of the grace period. Here the process runs when the cleanup starts and through
  the ten polls, and exits during the sleep after the tenth poll: it has exited at the
  end of the grace period (after ten sleeps), and the kill signal is sent to its group
  all the same.
\<close>

theorem kill_sent_after_exit_in_last_sleep:
  "returncode piped = None \<and>
   poll (lingers 0 Map.empty) 0 = None \<and>
   poll (lingers 0 Map.empty) 9 = None \<and>
   poll (lingers 0 Map.empty) 10 = Some (- 2) \<and>
   interrupt_wait_and_kill e0 (lingers 0 Map.empty) piped =
     (None, [ClosePipe (Pipe 1), ClosePipe (Pipe 2), Killpg 4000 SIGINT,
             Poll None, Sleep 100, Poll None, Sleep 100, Poll None, Sleep 100,
             Poll None, Sleep 100, Poll None, Sleep 100, Poll None, Sleep 100,
             Poll None, Sleep 100, Poll None, Sleep 100, Poll None, Sleep 100,
             Poll None, Sleep 100, Killpg 4000 SIGKILL])"
proof -
  have loop: "poll_loop (lingers 0 Map.empty) 0 10 =
      (False, concat (replicate 10 [Poll None, Sleep 100]))"
    by (simp add: poll_loop_ten unanswered_late)
  have r: "pgid (lingers 0 Map.empty) = Some 4000" "\<not> forgotten (lingers 0 Map.empty)"
          "\<not> missed (lingers 0 Map.empty) sig" "poll (lingers 0 Map.empty) 0 = None"
          "poll (lingers 0 Map.empty) 9 = None" "poll (lingers 0 Map.empty) 10 = Some (- 2)" for sig
    by (simp_all add: lingers_def)
  show ?thesis
    by (simp add: iwk_cases loop r replicate_ten piped_def e0_def close_pipes_def)
qed

section \<open>The hash size\<close>

text \<open>
  C6, as the code has it. The option \<open>hash_size\<close> is the length to which the digest of
  the output file is cut in the \<open>output-\<close> label (for a length between 0 and that of
  the digest). The hashed name of a candidate does not depend on the option: it is
  always the first 8 characters of the digest, a dash and the input name.
\<close>

theorem hash_size_scope:
  "hashed_name (cfg\<lparr>hash_size := h\<rparr>) e s = slice_to 8 (sha1_hexdigest e s) @ ''-'' @ input cfg \<and>
   (0 \<le> rc \<and> rc \<le> 127 \<and> fs st (output' cfg) = Some c \<longrightarrow>
      fst (on_exit (cfg\<lparr>hash_size := h\<rparr>) e s rc st) =
        Returns {''return-'' @ format_d rc, ''output-'' @ slice_to h (sha1_hexdigest e c)}) \<and>
   (0 \<le> h \<and> h \<le> int (length (sha1_hexdigest e c)) \<longrightarrow>
      int (length (slice_to h (sha1_hexdigest e c))) = h)"
  by (auto simp: hashed_name_def name_for_def on_exit_normal_fst slice_to_def)

theorem hash_size_scope_witness:
  "hashed_name (cfg0\<lparr>hash_size := 4\<rparr>) e0 [] = ''da39a3ee-in'' \<and>
   fst (on_exit (cfg0\<lparr>hash_size := 4\<rparr>) e0 [] 0 (fresh [''out'' \<mapsto> []])) =
     Returns {''return-0'', ''output-da39''} \<and>
   length (slice_to 4 (sha1_hexdigest e0 [])) = 4"
  using hash_size_scope [where cfg = cfg0 and h = 4 and e = e0 and s = "[]" and rc = 0
              and st = "fresh [''out'' \<mapsto> []]" and c = "[]"]
  by (simp add: cfg0_def e0_def sha1_known_def fresh_def slice_to_def format_d_def
      digits.simps digit_def)

text \<open>
  The claim as stated lets the option set the length of the candidate fingerprints
  too. With a hash size of 4 the hashed name of the empty candidate still carries 8
  characters of its digest.
\<close>

theorem fingerprint_ignores_hash_size:
  "hash_size (cfg0\<lparr>hash_size := 4\<rparr>) = 4 \<and>
   hashed_name (cfg0\<lparr>hash_size := 4\<rparr>) e0 [] = ''da39a3ee-in'' \<and>
   hashed_name (cfg0\<lparr>hash_size := 4\<rparr>) e0 [] \<noteq> ''da39-in''"
  by (simp add: cfg0_def e0_def sha1_known_def hashed_name_def name_for_def slice_to_def)

section \<open>Verbose once\<close>

text \<open>
  C7. In a run of calls that starts where \<open>main\<close> has defined \<open>classify\<close>, the first
  process launched gets \<open>sys.stdout\<close> and every later one \<open>DEVNULL\<close>. After any call
  \<open>first_call\<close> is false, and a call made when it is false launches its process with
  \<open>DEVNULL\<close>: the flag never goes back.
\<close>

theorem verbose_once:
  "launched_stdio (snd (classify_all cfg e tgt ss (fresh f))) =
     take (launches (snd (classify_all cfg e tgt ss (fresh f))))
          (Stdout # replicate (length ss) DEVNULL) \<and>
   first_call (snd (classify cfg e tgt s st)) = False \<and>
   (\<not> first_call st \<longrightarrow>
      launched_stdio (snd (classify cfg e tgt s st)) = launched_stdio st @ [DEVNULL])"
  by (simp add: classify_all_stdio classify_first_call classify_stdio)

theorem verbose_once_witness:
  "launched_stdio (snd (classify_all cfg0 e0 copies [[65], [], [65]] (fresh Map.empty))) =
     [Stdout, DEVNULL, DEVNULL] \<and>
   \<not> first_call (snd (classify cfg0 e0 copies [] (fresh Map.empty))) \<and>
   launched_stdio (snd (classify cfg0 e0 copies [65]
       (snd (classify cfg0 e0 copies [] (fresh Map.empty))))) = [Stdout, DEVNULL]"
proof -
  have l: "launches (snd (classify_all cfg0 e0 copies [[65], [], [65]] (fresh Map.empty))) = 3"
    using classify_all_launches_returned [of cfg0 copies e0 "[[65], [], [65]]" "fresh Map.empty"]
    by (simp add: copies_exits fresh_def)
  have one: "launched_stdio (snd (classify cfg0 e0 copies [] (fresh Map.empty))) = [Stdout]"
    by (simp add: classify_stdio) (simp add: fresh_def launched_stdio_def)
  show ?thesis
    using verbose_once [of cfg0 e0 copies "[[65], [], [65]]" Map.empty "[]" "fresh Map.empty"]
          verbose_once [of cfg0 e0 copies "[]" Map.empty "[65]"
                           "snd (classify cfg0 e0 copies [] (fresh Map.empty))"]
    by (simp add: l one del: classify_all.simps)
qed

section \<open>Preparing the files\<close>



section \<open>The assertion of signal_group\<close>

text \<open>
  C9 fails on the code. The assertion compares the process-group id of the child with
  \<open>os.getgid()\<close>, the group id of the user, and not with the process group of the engine.
  A child that leads its own group has its pid as its group id, and a pid can equal the
  group id of the user: here both are 1000. The process times out, the assertion fails
  before any signal is sent, \<open>classify\<close> raises \<open>AssertionError\<close> and the process is left
  running.
\<close>

theorem group_id_assertion_fails:
  "pgid (unlucky 0 Map.empty) = Some (pid (unlucky 0 Map.empty)) \<and>
   communicate cfg0 (child cfg0 unlucky [] (fresh Map.empty)) = Expired \<and>
   signal_group e0 (child cfg0 unlucky [] (fresh Map.empty)) piped SIGINT = Inl AssertionError \<and>
   fst (classify cfg0 e0 unlucky [] (fresh Map.empty)) = Raises AssertionError \<and>
   log (snd (classify cfg0 e0 unlucky [] (fresh Map.empty))) =
     [Unlink ''out'', Write ''in'' [], Launch ''./target'' Stdout,
      Write ''/c/timeouts/da39a3ee-in'' []]"
proof -
  have ex: "communicate cfg0 (child cfg0 unlucky [] (fresh Map.empty)) = Expired"
    by (simp add: child_eq communicate_def cfg0_def unlucky_def)
  have g: "pgid (child cfg0 unlucky [] (fresh Map.empty)) = Some (os_getgid e0)"
    by (simp add: child_eq unlucky_def e0_def)
  show ?thesis
    using ex g
    by (simp add: classify_expired cleanup_fst cleanup_snd on_timeout_fst on_timeout_snd
        iwk_fst_running iwk_cases signal_group_def os_getpgid_def os_killpg_def
        close_pipes_def)
       (simp add: unlucky_def fresh_def cfg0_def e0_def sha1_known_def slice_to_def timeouts_def
        os_path_join_def hashed_name_def name_for_def)
qed

section \<open>The empty input at startup\<close>



end
